theory Spec2Isabelle
  imports Main
begin

section \<open>Errors, contexts and diagnostics\<close>

text \<open>
  The error values the reconciler compares against in \<^verbatim>\<open>KvResourceCreate\<close>:
  \<^verbatim>\<open>context.Canceled\<close>, \<^verbatim>\<open>context.DeadlineExceeded\<close>, \<^verbatim>\<open>rpctypes.ErrEmptyKey\<close>, and
  any other error, which carries its message.
\<close>

datatype error = Canceled | DeadlineExceeded | ErrEmptyKey | ErrOther string

text \<open>The method \<^verbatim>\<open>err.Error()\<close>: the message of an error value.\<close>

fun Error_text :: "error \<Rightarrow> string" where
  "Error_text Canceled = ''context canceled''"
| "Error_text DeadlineExceeded = ''context deadline exceeded''"
| "Error_text ErrEmptyKey = ''etcdserver: key is not provided''"
| "Error_text (ErrOther s) = s"

text \<open>
  \<^verbatim>\<open>fmt.Errorf("<prefix>%v", err)\<close>: a fresh error whose message is the prefix followed
  by the message of \<open>err\<close>.
\<close>

definition Errorf :: "string \<Rightarrow> error \<Rightarrow> error" where
  "Errorf prefix err = ErrOther (prefix @ Error_text err)"

text \<open>
  The caller-supplied \<^verbatim>\<open>context.Context\<close>, reduced to what the store client reads of
  it: whether it is live, cancelled, or past its deadline.
\<close>

datatype ctx = Background | CtxCanceled | CtxDeadlineExceeded

fun ctx_Err :: "ctx \<Rightarrow> error option" where
  "ctx_Err Background = None"
| "ctx_Err CtxCanceled = Some Canceled"
| "ctx_Err CtxDeadlineExceeded = Some DeadlineExceeded"

datatype Severity = Error | Warning

record Diagnostic =
  Severity :: Severity
  Summary :: string

type_synonym Diagnostics = "Diagnostic list"

text \<open>\<^verbatim>\<open>diag.FromErr(err)\<close> for a non-nil \<open>err\<close>: one error diagnostic with the message as summary.\<close>

definition FromErr :: "error \<Rightarrow> Diagnostics" where
  "FromErr err = [\<lparr>Severity = Error, Summary = Error_text err\<rparr>]"

section \<open>The store client\<close>

text \<open>
  Modelled from the spec: the StoreClient collaborator (the etcd v3 client behind
  \<^verbatim>\<open>clientv3.NewKV(client).Txn(ctx).If(..).Then(..).Commit()\<close> and \<^verbatim>\<open>client.Get(ctx, key)\<close>),
  which the reconciler only calls. Following the interface of the spec,
  \<open>get(key)\<close> gives the sequence of observed records or the empty sequence, and
  \<open>transact(condition, onSuccessOps)\<close> gives a success boolean or an error, the condition
  being one of key-present and key-absent and the operation one of put and delete.
  A transaction whose condition does not hold changes nothing and answers with
  \<open>Succeeded = False\<close> and no error. The client keeps a log of the calls it received.
\<close>

record KeyValue =
  Key :: string
  Value :: string

record GetResponse =
  Kvs :: "KeyValue list"

record TxnResponse =
  Succeeded :: bool

datatype Cmp = KeyMissing string | KeyExists string

datatype Op = OpPut string string | OpDelete string

datatype store_call = CallGet string | CallTxn Cmp Op | CallUserAdd string string

record apiClient =
  kvs :: "string \<rightharpoonup> string"
  users :: "string \<rightharpoonup> string"
  unreachable :: "string option"
  calls :: "store_call list"

fun cmp_key :: "Cmp \<Rightarrow> string" where
  "cmp_key (KeyMissing k) = k"
| "cmp_key (KeyExists k) = k"

fun op_key :: "Op \<Rightarrow> string" where
  "op_key (OpPut k v) = k"
| "op_key (OpDelete k) = k"

fun cmp_holds :: "(string \<rightharpoonup> string) \<Rightarrow> Cmp \<Rightarrow> bool" where
  "cmp_holds m (KeyMissing k) = (m k = None)"
| "cmp_holds m (KeyExists k) = (m k \<noteq> None)"

fun apply_op :: "(string \<rightharpoonup> string) \<Rightarrow> Op \<Rightarrow> (string \<rightharpoonup> string)" where
  "apply_op m (OpPut k v) = m(k \<mapsto> v)"
| "apply_op m (OpDelete k) = m(k := None)"

text \<open>
  The failure of a call that never evaluates the request, if any: the error of the
  context, else a transport failure of the cluster, else the rejection of an empty key.
\<close>

definition call_failure :: "ctx \<Rightarrow> apiClient \<Rightarrow> string list \<Rightarrow> error option" where
  "call_failure c cl ks =
     (case ctx_Err c of
        Some e \<Rightarrow> Some e
      | None \<Rightarrow>
         (case unreachable cl of
            Some s \<Rightarrow> Some (ErrOther s)
          | None \<Rightarrow> if [] \<in> set ks then Some ErrEmptyKey else None))"

definition Commit :: "ctx \<Rightarrow> apiClient \<Rightarrow> Cmp \<Rightarrow> Op \<Rightarrow> (error + TxnResponse) \<times> apiClient" where
  "Commit c cl cmp opn =
     (let cl1 = cl\<lparr>calls := calls cl @ [CallTxn cmp opn]\<rparr> in
      case call_failure c cl [cmp_key cmp, op_key opn] of
        Some e \<Rightarrow> (Inl e, cl1)
      | None \<Rightarrow>
          if cmp_holds (kvs cl) cmp
          then (Inr \<lparr>Succeeded = True\<rparr>, cl1\<lparr>kvs := apply_op (kvs cl) opn\<rparr>)
          else (Inr \<lparr>Succeeded = False\<rparr>, cl1))"

definition Get :: "ctx \<Rightarrow> apiClient \<Rightarrow> string \<Rightarrow> (error + GetResponse) \<times> apiClient" where
  "Get c cl key =
     (let cl1 = cl\<lparr>calls := calls cl @ [CallGet key]\<rparr> in
      case call_failure c cl [key] of
        Some e \<Rightarrow> (Inl e, cl1)
      | None \<Rightarrow>
          (Inr \<lparr>Kvs = (case kvs cl key of
                        None \<Rightarrow> []
                      | Some v \<Rightarrow> [\<lparr>Key = key, Value = v\<rparr>])\<rparr>, cl1))"

section \<open>Resource data\<close>

text \<open>
  The schema of the resource, as \<^verbatim>\<open>KvResource()\<close> declares it: the attributes \<open>id\<close>, \<open>key\<close>
  and \<open>value\<close>, each of type \<^verbatim>\<open>schema.TypeString\<close>.
\<close>

datatype ValueType = TypeString

record Schema =
  Type :: ValueType
  Required :: bool
  Computed :: bool
  ForceNew :: bool

definition KvResource_Schema :: "string \<rightharpoonup> Schema" where
  "KvResource_Schema =
     [''id'' \<mapsto> \<lparr>Type = TypeString, Required = False, Computed = True, ForceNew = False\<rparr>,
      ''key'' \<mapsto> \<lparr>Type = TypeString, Required = True, Computed = False, ForceNew = True\<rparr>,
      ''value'' \<mapsto> \<lparr>Type = TypeString, Required = True, Computed = False, ForceNew = True\<rparr>]"

text \<open>
  \<^verbatim>\<open>schema.ResourceData\<close> as the reconciler uses it: the named attributes and the resource
  identity. A value handed to the resource data is dynamically typed (\<^verbatim>\<open>interface{}\<close>): a
  string, or the record list of a store response. \<^verbatim>\<open>d.Get(name).(string)\<close> reads a string,
  the zero value when the attribute is unset, and panics on a value that is no string.
\<close>

datatype attr = Str string | KvList "KeyValue list"

record ResourceData =
  attrs :: "string \<rightharpoonup> attr"
  ident :: string

definition GetString :: "ResourceData \<Rightarrow> string \<Rightarrow> string option" where
  "GetString d name =
     (case attrs d name of
        None \<Rightarrow> Some []
      | Some (Str s) \<Rightarrow> Some s
      | Some (KvList xs) \<Rightarrow> None)"

text \<open>
  \<^verbatim>\<open>d.Set(name, v)\<close> writes \<open>v\<close> under \<open>name\<close> when \<open>v\<close> has the type the schema declares for
  the attribute. A value of another type, a record list for a string attribute, is
  rejected: \<^verbatim>\<open>Set\<close> returns an error and writes nothing, which is \<open>None\<close> here.
\<close>

fun conforms :: "ValueType \<Rightarrow> attr \<Rightarrow> bool" where
  "conforms TypeString (Str s) = True"
| "conforms TypeString (KvList xs) = False"

definition Set_attr :: "ResourceData \<Rightarrow> string \<Rightarrow> attr \<Rightarrow> ResourceData option" where
  "Set_attr d name v =
     (case KvResource_Schema name of
        None \<Rightarrow> None
      | Some sch \<Rightarrow>
          if conforms (Type sch) v then Some (d\<lparr>attrs := (attrs d)(name \<mapsto> v)\<rparr>) else None)"

definition SetId :: "ResourceData \<Rightarrow> string \<Rightarrow> ResourceData" where
  "SetId d v = d\<lparr>ident := v\<rparr>"

text \<open>The declared resource \<open>{key, value}\<close> before it is reconciled: no identity yet.\<close>

definition declared :: "string \<Rightarrow> string \<Rightarrow> ResourceData" where
  "declared k v = \<lparr>attrs = [''key'' \<mapsto> Str k, ''value'' \<mapsto> Str v], ident = []\<rparr>"

section \<open>The key-value reconciler\<close>

text \<open>
  Each operation takes the context, the resource data and the client, and returns the
  diagnostics together with the resource data and the client as the call leaves them.
  \<open>None\<close> is a panic of a failed type assertion, before any call to the store.
  \<^verbatim>\<open>KvResourceRead\<close> drops the error that \<^verbatim>\<open>d.Set\<close> returns: after a rejected write the
  resource data is as it was.
\<close>

type_synonym outcome = "(Diagnostics \<times> ResourceData \<times> apiClient) option"

definition KvResourceCreate :: "ctx \<Rightarrow> ResourceData \<Rightarrow> apiClient \<Rightarrow> outcome" where
  "KvResourceCreate c d meta =
     (case GetString d ''key'' of
        None \<Rightarrow> None
      | Some key \<Rightarrow>
     (case GetString d ''value'' of
        None \<Rightarrow> None
      | Some val \<Rightarrow>
     (case Commit c meta (KeyMissing key) (OpPut key val) of
        (Inl err, meta') \<Rightarrow>
          (case err of
             Canceled \<Rightarrow>
               Some (FromErr (Errorf ''ctx is canceled by another routine: '' err), d, meta')
           | DeadlineExceeded \<Rightarrow>
               Some (FromErr (Errorf ''ctx is attached with a deadline is exceeded: '' err), d, meta')
           | ErrEmptyKey \<Rightarrow>
               Some (FromErr (Errorf ''client-side error: '' err), d, meta')
           | ErrOther s \<Rightarrow>
               Some (FromErr (Errorf ''bad cluster endpoints, which are not etcd servers: '' err), d, meta'))
      | (Inr resp, meta') \<Rightarrow> Some ([], SetId d key, meta'))))"

definition KvResourceRead :: "ctx \<Rightarrow> ResourceData \<Rightarrow> apiClient \<Rightarrow> outcome" where
  "KvResourceRead c d meta =
     (case GetString d ''key'' of
        None \<Rightarrow> None
      | Some key \<Rightarrow>
     (case Get c meta key of
        (Inl err, meta') \<Rightarrow> Some (FromErr err, d, meta')
      | (Inr response, meta') \<Rightarrow>
          Some ([], (case Set_attr d ''key'' (KvList (Kvs response)) of
                       None \<Rightarrow> d
                     | Some d1 \<Rightarrow> d1), meta')))"

definition KvResourceDelete :: "ctx \<Rightarrow> ResourceData \<Rightarrow> apiClient \<Rightarrow> outcome" where
  "KvResourceDelete c d meta =
     (case GetString d ''key'' of
        None \<Rightarrow> None
      | Some key \<Rightarrow>
     (case Commit c meta (KeyExists key) (OpDelete key) of
        (Inl err, meta') \<Rightarrow> Some (FromErr err, d, meta')
      | (Inr resp, meta') \<Rightarrow> Some ([], SetId d [], meta')))"

text \<open>A freshly connected client over a reachable cluster holding the given entries.\<close>

definition client_of :: "(string \<times> string) list \<Rightarrow> apiClient" where
  "client_of kv = \<lparr>kvs = map_of kv, users = Map.empty, unreachable = None, calls = []\<rparr>"

section \<open>The user reconciler\<close>

text \<open>
  Modelled from the spec: the UserReconciler (password validation and the creation of a
  user), whose source is not among the files of the repository at hand; only the
  documentation page of the resource is, which asks for a password of more than 9
  characters. Following the spec, \<open>Validate(password)\<close> fails with a policy-violation
  classification if the length is at most 9 characters, validation runs before any
  network call, \<open>Create(username, password)\<close> issues a create-user operation against the
  store, on success the resource identity becomes the user name, and the creation of a
  duplicate user name fails distinctly from a transport failure. The failure classes are
  the taxonomy of the spec.
\<close>

datatype failure =
  ClientCancelled | DeadlineExceededFailure | InvalidInput | TransactionConflict
  | ClusterUnreachable | NotFound

fun classify :: "error \<Rightarrow> failure" where
  "classify Canceled = ClientCancelled"
| "classify DeadlineExceeded = DeadlineExceededFailure"
| "classify ErrEmptyKey = InvalidInput"
| "classify (ErrOther s) = ClusterUnreachable"

definition Validate :: "string \<Rightarrow> failure + unit" where
  "Validate password = (if length password \<le> 9 then Inl InvalidInput else Inr ())"

definition createUser :: "ctx \<Rightarrow> apiClient \<Rightarrow> string \<Rightarrow> string \<Rightarrow> (failure + unit) \<times> apiClient" where
  "createUser c cl username password =
     (let cl1 = cl\<lparr>calls := calls cl @ [CallUserAdd username password]\<rparr> in
      case call_failure c cl [username] of
        Some e \<Rightarrow> (Inl (classify e), cl1)
      | None \<Rightarrow>
          if users cl username \<noteq> None then (Inl TransactionConflict, cl1)
          else (Inr (), cl1\<lparr>users := (users cl)(username \<mapsto> password)\<rparr>))"

definition UserResourceCreate :: "ctx \<Rightarrow> string \<Rightarrow> string \<Rightarrow> apiClient \<Rightarrow> (failure + string) \<times> apiClient" where
  "UserResourceCreate c username password cl =
     (case Validate password of
        Inl f \<Rightarrow> (Inl f, cl)
      | Inr u \<Rightarrow>
          (case createUser c cl username password of
             (Inl f, cl') \<Rightarrow> (Inl f, cl')
           | (Inr u', cl') \<Rightarrow> (Inr username, cl')))"

section \<open>Facts about the store client\<close>

lemma call_failure_ctx: "ctx_Err c = Some e \<Longrightarrow> call_failure c cl ks = Some e"
  by (simp add: call_failure_def)

lemma call_failure_live:
  "ctx_Err c = None \<Longrightarrow> unreachable cl = None \<Longrightarrow>
   call_failure c cl ks = (if [] \<in> set ks then Some ErrEmptyKey else None)"
  by (simp add: call_failure_def)

lemma call_failure_unreachable:
  "ctx_Err c = None \<Longrightarrow> unreachable cl = Some s \<Longrightarrow> call_failure c cl ks = Some (ErrOther s)"
  by (simp add: call_failure_def)

lemma ctx_Err_cases: "ctx_Err c = Some e \<Longrightarrow> e = Canceled \<or> e = DeadlineExceeded"
  by (cases c) auto

lemma GetString_declared:
  "GetString (declared k v) ''key'' = Some k" "GetString (declared k v) ''value'' = Some v"
  by (simp_all add: GetString_def declared_def)

lemma GetString_SetId: "GetString (SetId d i) name = GetString d name"
  by (simp add: GetString_def SetId_def)

lemma Commit_live:
  assumes "ctx_Err c = None" "unreachable cl = None" "cmp_key cmp \<noteq> []" "op_key opn \<noteq> []"
  shows "Commit c cl cmp opn =
    (if cmp_holds (kvs cl) cmp
     then (Inr \<lparr>Succeeded = True\<rparr>, cl\<lparr>calls := calls cl @ [CallTxn cmp opn], kvs := apply_op (kvs cl) opn\<rparr>)
     else (Inr \<lparr>Succeeded = False\<rparr>, cl\<lparr>calls := calls cl @ [CallTxn cmp opn]\<rparr>))"
  using assms by (simp add: Commit_def call_failure_live Let_def)

lemma Commit_failure:
  assumes "call_failure c cl [cmp_key cmp, op_key opn] = Some e"
  shows "Commit c cl cmp opn = (Inl e, cl\<lparr>calls := calls cl @ [CallTxn cmp opn]\<rparr>)"
  using assms by (simp add: Commit_def Let_def)

lemma Get_live:
  assumes "ctx_Err c = None" "unreachable cl = None" "key \<noteq> []"
  shows "Get c cl key =
    (Inr \<lparr>Kvs = (case kvs cl key of None \<Rightarrow> [] | Some v \<Rightarrow> [\<lparr>Key = key, Value = v\<rparr>])\<rparr>,
     cl\<lparr>calls := calls cl @ [CallGet key]\<rparr>)"
  using assms by (simp add: Get_def call_failure_live Let_def)

lemma Get_failure:
  assumes "call_failure c cl [key] = Some e"
  shows "Get c cl key = (Inl e, cl\<lparr>calls := calls cl @ [CallGet key]\<rparr>)"
  using assms by (simp add: Get_def Let_def)

section \<open>Facts about the reconciler's calls\<close>

text \<open>
  A create whose store call fails reports the error under the message of its class and
  leaves the resource data as it was; a create whose store call does not fail reports
  nothing.
\<close>

lemma Create_failure:
  assumes "GetString d ''key'' = Some k" and "GetString d ''value'' = Some v"
    and "call_failure c meta [k, k] = Some e"
  shows "KvResourceCreate c d meta
    = Some ([\<lparr>Severity = Error, Summary =
               (case e of
                  Canceled \<Rightarrow> ''ctx is canceled by another routine: ''
                | DeadlineExceeded \<Rightarrow> ''ctx is attached with a deadline is exceeded: ''
                | ErrEmptyKey \<Rightarrow> ''client-side error: ''
                | ErrOther s \<Rightarrow> ''bad cluster endpoints, which are not etcd servers: '')
               @ Error_text e\<rparr>],
            d, meta\<lparr>calls := calls meta @ [CallTxn (KeyMissing k) (OpPut k v)]\<rparr>)"
  using assms
  by (cases e) (simp_all add: KvResourceCreate_def Commit_failure FromErr_def Errorf_def)

lemma Create_success:
  assumes "GetString d ''key'' = Some k" and "GetString d ''value'' = Some v"
    and "call_failure c meta [k, k] = None"
  shows "\<exists>d' meta'. KvResourceCreate c d meta = Some ([], d', meta')"
  using assms
  by (simp add: KvResourceCreate_def Commit_def Let_def)

text \<open>
  A delete whose call reaches the store reports nothing and leaves the key absent, whether
  or not the key was there; any delete keeps the declared key and the state of the cluster.
\<close>

lemma Delete_live:
  assumes "GetString d ''key'' = Some k" and "k \<noteq> []"
    and "ctx_Err c = None" and "unreachable meta = None"
  shows "KvResourceDelete c d meta
    = Some ([], SetId d [],
            meta\<lparr>calls := calls meta @ [CallTxn (KeyExists k) (OpDelete k)],
                 kvs := (kvs meta)(k := None)\<rparr>)"
proof (cases "kvs meta k")
  case None
  then have "(kvs meta)(k := None) = kvs meta" by (simp add: fun_upd_idem)
  then show ?thesis using assms None
    by (simp add: KvResourceDelete_def Commit_live)
next
  case (Some v)
  then show ?thesis using assms
    by (simp add: KvResourceDelete_def Commit_live)
qed

lemma Delete_any:
  assumes "GetString d ''key'' = Some k"
  shows "\<exists>ds1 d1 meta1.
           KvResourceDelete c d meta = Some (ds1, d1, meta1)
         \<and> GetString d1 ''key'' = Some k
         \<and> unreachable meta1 = unreachable meta
         \<and> (ds1 = [] \<longrightarrow> kvs meta1 k = None)"
proof (cases "call_failure c meta [k, k]")
  case None
  then show ?thesis using assms
    by (simp add: KvResourceDelete_def Commit_def Let_def GetString_SetId)
next
  case (Some e)
  then show ?thesis using assms
    by (simp add: KvResourceDelete_def Commit_failure FromErr_def)
qed

text \<open>
  The record list of a store response is no string: the write of it into the \<open>key\<close>
  attribute is rejected, so a read whose call reaches the store leaves the resource data
  as it was.
\<close>

lemma Set_attr_key_KvList: "Set_attr d ''key'' (KvList xs) = None"
  by (simp add: Set_attr_def KvResource_Schema_def)

lemma Read_live:
  assumes "GetString d ''key'' = Some k" and "k \<noteq> []"
    and "ctx_Err c = None" and "unreachable meta = None"
  shows "KvResourceRead c d meta = Some ([], d, meta\<lparr>calls := calls meta @ [CallGet k]\<rparr>)"
  using assms by (simp add: KvResourceRead_def Get_live Set_attr_key_KvList)

section \<open>Create on a key that is present\<close>

text \<open>
  Claim C1, as the spec states it: for every key present in the store, \<open>Create(key, v2)\<close>
  fails with a create conflict and leaves the stored value unchanged. The reconciler
  discards the response of the transaction, so the failed condition is not surfaced: on
  the store holding \<open>x = a\<close>, \<open>Create(x, b)\<close> returns no diagnostic and sets the identity.
\<close>

theorem KvResourceCreate_existing_key_counterexample:
  "KvResourceCreate Background (declared ''x'' ''b'') (client_of [(''x'', ''a'')])
   = Some ([], SetId (declared ''x'' ''b'') ''x'',
           (client_of [(''x'', ''a'')])\<lparr>calls := [CallTxn (KeyMissing ''x'') (OpPut ''x'' ''b'')]\<rparr>)"
  by (simp add: KvResourceCreate_def GetString_declared Commit_live client_of_def)

text \<open>
  Claim C1, amended: for every key present in the store, a \<open>Create(key, v2)\<close> whose call
  reaches the store (live context, reachable cluster, non-empty key) leaves the value
  stored under the key unchanged; it returns no diagnostic and sets the identity to the key.
\<close>

theorem KvResourceCreate_existing_key:
  assumes "GetString d ''key'' = Some k" and "GetString d ''value'' = Some v2"
    and "kvs meta k = Some v1"
    and "k \<noteq> []" and "ctx_Err c = None" and "unreachable meta = None"
  shows "KvResourceCreate c d meta
         = Some ([], SetId d k, meta\<lparr>calls := calls meta @ [CallTxn (KeyMissing k) (OpPut k v2)]\<rparr>)
       \<and> kvs (meta\<lparr>calls := calls meta @ [CallTxn (KeyMissing k) (OpPut k v2)]\<rparr>) k = Some v1"
  using assms by (simp add: KvResourceCreate_def Commit_live)

theorem KvResourceCreate_existing_key_witness:
  "KvResourceCreate Background (declared ''color'' ''blue'') (client_of [(''color'', ''red'')])
   = Some ([], SetId (declared ''color'' ''blue'') ''color'',
           (client_of [(''color'', ''red'')])\<lparr>calls := [CallTxn (KeyMissing ''color'') (OpPut ''color'' ''blue'')]\<rparr>)
   \<and> kvs ((client_of [(''color'', ''red'')])\<lparr>calls := [CallTxn (KeyMissing ''color'') (OpPut ''color'' ''blue'')]\<rparr>) ''color''
      = Some ''red''"
  using KvResourceCreate_existing_key [of "declared ''color'' ''blue''" "''color''" "''blue''"
      "client_of [(''color'', ''red'')]" "''red''" Background]
  by (simp add: GetString_declared client_of_def)

section \<open>Delete is idempotent\<close>

text \<open>
  Claim C2: for every key, \<open>Delete(key)\<close> is idempotent. When the key is already absent
  the transaction conditioned on its existence fails, and the reconciler treats this as
  a success that changes nothing; so of two deletes in sequence the second one, when its
  call reaches the store (live context, reachable cluster, non-empty key), returns no
  error, whatever the first one returned, and leaves the key absent and the identity
  cleared. After a first delete without error the second one leaves the store as it is.
\<close>

theorem KvResourceDelete_idempotent:
  assumes "GetString d ''key'' = Some k" and "k \<noteq> []"
    and "ctx_Err c' = None" and "unreachable meta = None"
  shows "(kvs meta k = None \<longrightarrow>
            KvResourceDelete c' d meta
            = Some ([], SetId d [], meta\<lparr>calls := calls meta @ [CallTxn (KeyExists k) (OpDelete k)]\<rparr>))
       \<and> (\<exists>ds1 d1 meta1 d2 meta2.
            KvResourceDelete c d meta = Some (ds1, d1, meta1)
          \<and> KvResourceDelete c' d1 meta1 = Some ([], d2, meta2)
          \<and> kvs meta2 k = None \<and> ident d2 = []
          \<and> (ds1 = [] \<longrightarrow> kvs meta2 = kvs meta1))"
proof -
  have absent: "kvs meta k = None \<longrightarrow>
            KvResourceDelete c' d meta
            = Some ([], SetId d [], meta\<lparr>calls := calls meta @ [CallTxn (KeyExists k) (OpDelete k)]\<rparr>)"
    using assms by (simp add: KvResourceDelete_def Commit_live)
  obtain ds1 d1 meta1 where first: "KvResourceDelete c d meta = Some (ds1, d1, meta1)"
    and k1: "GetString d1 ''key'' = Some k"
    and u1: "unreachable meta1 = None"
    and gone: "ds1 = [] \<longrightarrow> kvs meta1 k = None"
    using Delete_any [OF assms(1), of c meta] assms(4) by auto
  let ?meta2 = "meta1\<lparr>calls := calls meta1 @ [CallTxn (KeyExists k) (OpDelete k)],
                      kvs := (kvs meta1)(k := None)\<rparr>"
  have second: "KvResourceDelete c' d1 meta1 = Some ([], SetId d1 [], ?meta2)"
    using Delete_live [OF k1 assms(2) assms(3) u1] .
  have "kvs ?meta2 k = None" "ident (SetId d1 []) = []"
    by (simp_all add: SetId_def)
  moreover have "ds1 = [] \<longrightarrow> kvs ?meta2 = kvs meta1"
    using gone by (simp add: fun_upd_idem)
  ultimately have "\<exists>ds1 d1 meta1 d2 meta2.
            KvResourceDelete c d meta = Some (ds1, d1, meta1)
          \<and> KvResourceDelete c' d1 meta1 = Some ([], d2, meta2)
          \<and> kvs meta2 k = None \<and> ident d2 = []
          \<and> (ds1 = [] \<longrightarrow> kvs meta2 = kvs meta1)"
    using first second by blast
  with absent show ?thesis by blast
qed

theorem KvResourceDelete_idempotent_witness:
  "\<exists>ds1 d1 meta1 d2 meta2.
     KvResourceDelete Background (SetId (declared ''x'' ''a'') ''x'') (client_of [(''x'', ''a'')])
       = Some (ds1, d1, meta1)
   \<and> KvResourceDelete Background d1 meta1 = Some ([], d2, meta2)
   \<and> kvs meta2 ''x'' = None \<and> ident d2 = []"
proof -
  have key: "GetString (SetId (declared ''x'' ''a'') ''x'') ''key'' = Some ''x''"
    by (simp add: GetString_declared GetString_SetId)
  have nonempty: "''x'' \<noteq> []" by simp
  have live: "ctx_Err Background = None" by simp
  have reachable: "unreachable (client_of [(''x'', ''a'')]) = None"
    by (simp add: client_of_def)
  show ?thesis
    using KvResourceDelete_idempotent [OF key nonempty live reachable, of Background] by blast
qed

section \<open>Create followed by read\<close>



section \<open>Read of an absent key\<close>

text \<open>
  Claim C4, as the spec states it: when \<open>Read(key)\<close> finds the key absent, the resource
  is dropped from tracked state, its identity cleared. The read path never touches the
  identity: on the empty store, the read of the resource with identity \<open>x\<close> returns no
  diagnostic and the resource as it was, its identity still \<open>x\<close>.
\<close>

theorem KvResourceRead_absent_key_counterexample:
  "KvResourceRead Background (SetId (declared ''x'' ''a'') ''x'') (client_of [])
   = Some ([], SetId (declared ''x'' ''a'') ''x'', (client_of [])\<lparr>calls := [CallGet ''x'']\<rparr>)
   \<and> ident (SetId (declared ''x'' ''a'') ''x'') = ''x''"
proof -
  have "ident (SetId (declared ''x'' ''a'') ''x'') = ''x''"
    by (simp add: SetId_def)
  then show ?thesis
    by (simp add: Read_live GetString_declared GetString_SetId client_of_def)
qed

text \<open>
  Claim C4, amended: when \<open>Read(key)\<close>, its call reaching the store, finds the key absent,
  it returns no diagnostic and leaves the tracked resource in place, its identity as it
  was: the resource is not dropped from tracked state.
\<close>

theorem KvResourceRead_absent_key:
  assumes "GetString d ''key'' = Some k" and "k \<noteq> []" and "kvs meta k = None"
    and "ctx_Err c = None" and "unreachable meta = None"
  shows "Get c meta k = (Inr \<lparr>Kvs = []\<rparr>, meta\<lparr>calls := calls meta @ [CallGet k]\<rparr>)
       \<and> KvResourceRead c d meta = Some ([], d, meta\<lparr>calls := calls meta @ [CallGet k]\<rparr>)"
  using assms by (simp add: Read_live Get_live)

theorem KvResourceRead_absent_key_witness:
  "Get Background (client_of [(''other'', ''w'')]) ''gone''
   = (Inr \<lparr>Kvs = []\<rparr>, (client_of [(''other'', ''w'')])\<lparr>calls := [CallGet ''gone'']\<rparr>)
   \<and> KvResourceRead Background (SetId (declared ''gone'' ''v'') ''gone'') (client_of [(''other'', ''w'')])
   = Some ([], SetId (declared ''gone'' ''v'') ''gone'',
           (client_of [(''other'', ''w'')])\<lparr>calls := [CallGet ''gone'']\<rparr>)"
  using KvResourceRead_absent_key [of "SetId (declared ''gone'' ''v'') ''gone''" "''gone''"
      "client_of [(''other'', ''w'')]" Background]
  by (simp add: GetString_declared GetString_SetId client_of_def)

section \<open>The messages of a failing create\<close>

text \<open>
  Claim C5: a failing \<open>Create(key, value)\<close> returns one error diagnostic whose message
  tells four outcomes apart. A cancelled context, an exceeded deadline of the context,
  an empty key (a client-side error) and a transport failure of the cluster (reported
  as bad cluster endpoints) each make the create fail with a message of their own, the
  resource data unchanged; any other create returns no diagnostic, so every failing
  create is one of the four; and the four messages are pairwise different, whatever the
  text of the transport failure.
\<close>

theorem KvResourceCreate_error_classification:
  assumes "GetString d ''key'' = Some k" and "GetString d ''value'' = Some v"
  shows "(ctx_Err c = Some Canceled \<longrightarrow>
            KvResourceCreate c d meta
            = Some ([\<lparr>Severity = Error,
                      Summary = ''ctx is canceled by another routine: context canceled''\<rparr>],
                    d, meta\<lparr>calls := calls meta @ [CallTxn (KeyMissing k) (OpPut k v)]\<rparr>))
       \<and> (ctx_Err c = Some DeadlineExceeded \<longrightarrow>
            KvResourceCreate c d meta
            = Some ([\<lparr>Severity = Error,
                      Summary = ''ctx is attached with a deadline is exceeded: context deadline exceeded''\<rparr>],
                    d, meta\<lparr>calls := calls meta @ [CallTxn (KeyMissing k) (OpPut k v)]\<rparr>))
       \<and> (ctx_Err c = None \<and> unreachable meta = None \<and> k = [] \<longrightarrow>
            KvResourceCreate c d meta
            = Some ([\<lparr>Severity = Error,
                      Summary = ''client-side error: etcdserver: key is not provided''\<rparr>],
                    d, meta\<lparr>calls := calls meta @ [CallTxn (KeyMissing k) (OpPut k v)]\<rparr>))
       \<and> (\<forall>s. ctx_Err c = None \<and> unreachable meta = Some s \<longrightarrow>
            KvResourceCreate c d meta
            = Some ([\<lparr>Severity = Error,
                      Summary = ''bad cluster endpoints, which are not etcd servers: '' @ s\<rparr>],
                    d, meta\<lparr>calls := calls meta @ [CallTxn (KeyMissing k) (OpPut k v)]\<rparr>))
       \<and> (ctx_Err c = None \<and> unreachable meta = None \<and> k \<noteq> [] \<longrightarrow>
            (\<exists>meta'. KvResourceCreate c d meta = Some ([], SetId d k, meta')))
       \<and> (\<forall>s. distinct
             [''ctx is canceled by another routine: context canceled'',
              ''ctx is attached with a deadline is exceeded: context deadline exceeded'',
              ''client-side error: etcdserver: key is not provided'',
              ''bad cluster endpoints, which are not etcd servers: '' @ s])"
proof -
  have canceled: "ctx_Err c = Some Canceled \<longrightarrow>
            KvResourceCreate c d meta
            = Some ([\<lparr>Severity = Error,
                      Summary = ''ctx is canceled by another routine: context canceled''\<rparr>],
                    d, meta\<lparr>calls := calls meta @ [CallTxn (KeyMissing k) (OpPut k v)]\<rparr>)"
  proof
    assume "ctx_Err c = Some Canceled"
    then have "call_failure c meta [k, k] = Some Canceled" by (rule call_failure_ctx)
    from Create_failure [OF assms this] show "KvResourceCreate c d meta
            = Some ([\<lparr>Severity = Error,
                      Summary = ''ctx is canceled by another routine: context canceled''\<rparr>],
                    d, meta\<lparr>calls := calls meta @ [CallTxn (KeyMissing k) (OpPut k v)]\<rparr>)"
      by simp
  qed
  have deadline: "ctx_Err c = Some DeadlineExceeded \<longrightarrow>
            KvResourceCreate c d meta
            = Some ([\<lparr>Severity = Error,
                      Summary = ''ctx is attached with a deadline is exceeded: context deadline exceeded''\<rparr>],
                    d, meta\<lparr>calls := calls meta @ [CallTxn (KeyMissing k) (OpPut k v)]\<rparr>)"
  proof
    assume "ctx_Err c = Some DeadlineExceeded"
    then have "call_failure c meta [k, k] = Some DeadlineExceeded" by (rule call_failure_ctx)
    from Create_failure [OF assms this] show "KvResourceCreate c d meta
            = Some ([\<lparr>Severity = Error,
                      Summary = ''ctx is attached with a deadline is exceeded: context deadline exceeded''\<rparr>],
                    d, meta\<lparr>calls := calls meta @ [CallTxn (KeyMissing k) (OpPut k v)]\<rparr>)"
      by simp
  qed
  have empty: "ctx_Err c = None \<and> unreachable meta = None \<and> k = [] \<longrightarrow>
            KvResourceCreate c d meta
            = Some ([\<lparr>Severity = Error,
                      Summary = ''client-side error: etcdserver: key is not provided''\<rparr>],
                    d, meta\<lparr>calls := calls meta @ [CallTxn (KeyMissing k) (OpPut k v)]\<rparr>)"
  proof
    assume "ctx_Err c = None \<and> unreachable meta = None \<and> k = []"
    then have "call_failure c meta [k, k] = Some ErrEmptyKey"
      by (simp add: call_failure_live)
    from Create_failure [OF assms this] show "KvResourceCreate c d meta
            = Some ([\<lparr>Severity = Error,
                      Summary = ''client-side error: etcdserver: key is not provided''\<rparr>],
                    d, meta\<lparr>calls := calls meta @ [CallTxn (KeyMissing k) (OpPut k v)]\<rparr>)"
      by simp
  qed
  have cluster: "\<forall>s. ctx_Err c = None \<and> unreachable meta = Some s \<longrightarrow>
            KvResourceCreate c d meta
            = Some ([\<lparr>Severity = Error,
                      Summary = ''bad cluster endpoints, which are not etcd servers: '' @ s\<rparr>],
                    d, meta\<lparr>calls := calls meta @ [CallTxn (KeyMissing k) (OpPut k v)]\<rparr>)"
  proof (intro allI impI)
    fix s
    assume "ctx_Err c = None \<and> unreachable meta = Some s"
    then have "call_failure c meta [k, k] = Some (ErrOther s)"
      by (simp add: call_failure_unreachable)
    from Create_failure [OF assms this] show "KvResourceCreate c d meta
            = Some ([\<lparr>Severity = Error,
                      Summary = ''bad cluster endpoints, which are not etcd servers: '' @ s\<rparr>],
                    d, meta\<lparr>calls := calls meta @ [CallTxn (KeyMissing k) (OpPut k v)]\<rparr>)"
      by simp
  qed
  have success: "ctx_Err c = None \<and> unreachable meta = None \<and> k \<noteq> [] \<longrightarrow>
            (\<exists>meta'. KvResourceCreate c d meta = Some ([], SetId d k, meta'))"
    using assms by (simp add: KvResourceCreate_def Commit_live)
  have messages: "\<forall>s. distinct
             [''ctx is canceled by another routine: context canceled'',
              ''ctx is attached with a deadline is exceeded: context deadline exceeded'',
              ''client-side error: etcdserver: key is not provided'',
              ''bad cluster endpoints, which are not etcd servers: '' @ s]"
    by simp
  from canceled deadline empty cluster success messages show ?thesis by blast
qed

theorem KvResourceCreate_error_classification_witness:
  "KvResourceCreate CtxCanceled (declared ''x'' ''a'') (client_of [])
     = Some ([\<lparr>Severity = Error,
               Summary = ''ctx is canceled by another routine: context canceled''\<rparr>],
             declared ''x'' ''a'',
             (client_of [])\<lparr>calls := [CallTxn (KeyMissing ''x'') (OpPut ''x'' ''a'')]\<rparr>)
   \<and> KvResourceCreate CtxDeadlineExceeded (declared ''x'' ''a'') (client_of [])
     = Some ([\<lparr>Severity = Error,
               Summary = ''ctx is attached with a deadline is exceeded: context deadline exceeded''\<rparr>],
             declared ''x'' ''a'',
             (client_of [])\<lparr>calls := [CallTxn (KeyMissing ''x'') (OpPut ''x'' ''a'')]\<rparr>)
   \<and> KvResourceCreate Background (declared [] ''a'') (client_of [])
     = Some ([\<lparr>Severity = Error,
               Summary = ''client-side error: etcdserver: key is not provided''\<rparr>],
             declared [] ''a'',
             (client_of [])\<lparr>calls := [CallTxn (KeyMissing []) (OpPut [] ''a'')]\<rparr>)
   \<and> KvResourceCreate Background (declared ''x'' ''a'')
       ((client_of [])\<lparr>unreachable := Some ''connection refused''\<rparr>)
     = Some ([\<lparr>Severity = Error,
               Summary = ''bad cluster endpoints, which are not etcd servers: connection refused''\<rparr>],
             declared ''x'' ''a'',
             (client_of [])\<lparr>unreachable := Some ''connection refused'',
                               calls := [CallTxn (KeyMissing ''x'') (OpPut ''x'' ''a'')]\<rparr>)
   \<and> (\<exists>meta'. KvResourceCreate Background (declared ''x'' ''a'') (client_of [])
        = Some ([], SetId (declared ''x'' ''a'') ''x'', meta'))"
proof -
  have kx: "GetString (declared ''x'' ''a'') ''key'' = Some ''x''"
    and vx: "GetString (declared ''x'' ''a'') ''value'' = Some ''a''"
    and ke: "GetString (declared [] ''a'') ''key'' = Some []"
    and ve: "GetString (declared [] ''a'') ''value'' = Some ''a''"
    by (simp_all add: GetString_declared)
  from
    KvResourceCreate_error_classification [OF kx vx, of CtxCanceled "client_of []"]
    KvResourceCreate_error_classification [OF kx vx, of CtxDeadlineExceeded "client_of []"]
    KvResourceCreate_error_classification [OF ke ve, of Background "client_of []"]
    KvResourceCreate_error_classification [OF kx vx, of Background
      "(client_of [])\<lparr>unreachable := Some ''connection refused''\<rparr>"]
    KvResourceCreate_error_classification [OF kx vx, of Background "client_of []"]
  show ?thesis
    by (simp add: client_of_def)
qed

section \<open>Create with an empty key\<close>

text \<open>
  Claim C6, as the spec states it: for a create with an empty key the invalid input is
  reported before any call to the store. The reconciler validates nothing itself: it
  commits the transaction first and reads the error afterwards, so the log of the
  client holds the transaction.
\<close>

theorem KvResourceCreate_empty_key_counterexample:
  "KvResourceCreate Background (declared [] ''v'') (client_of [])
   = Some ([\<lparr>Severity = Error, Summary = ''client-side error: etcdserver: key is not provided''\<rparr>],
           declared [] ''v'',
           (client_of [])\<lparr>calls := [CallTxn (KeyMissing []) (OpPut [] ''v'')]\<rparr>)
   \<and> calls ((client_of [])\<lparr>calls := [CallTxn (KeyMissing []) (OpPut [] ''v'')]\<rparr>) \<noteq> calls (client_of [])"
  by (simp add: KvResourceCreate_def GetString_declared Commit_failure call_failure_live
      FromErr_def Errorf_def client_of_def)

text \<open>
  Claim C6, amended: every create with an empty key issues its transaction to the store
  and fails, the resource data (identity included) and the contents of the store
  unchanged; when the context is live and the cluster reachable, the failure is the
  rejection of the empty key by the store, reported as a client-side error.
\<close>

theorem KvResourceCreate_empty_key:
  assumes "GetString d ''key'' = Some []" and "GetString d ''value'' = Some v"
  shows "\<exists>ds. KvResourceCreate c d meta
              = Some (ds, d, meta\<lparr>calls := calls meta @ [CallTxn (KeyMissing []) (OpPut [] v)]\<rparr>)
            \<and> ds \<noteq> []
            \<and> (ctx_Err c = None \<and> unreachable meta = None \<longrightarrow>
                 ds = [\<lparr>Severity = Error,
                        Summary = ''client-side error: etcdserver: key is not provided''\<rparr>])"
proof -
  have "\<exists>e. call_failure c meta [[], []] = Some e
      \<and> (ctx_Err c = None \<and> unreachable meta = None \<longrightarrow> e = ErrEmptyKey)"
    by (cases "ctx_Err c"; cases "unreachable meta") (simp_all add: call_failure_def)
  then obtain e where e: "call_failure c meta [[], []] = Some e"
    and live: "ctx_Err c = None \<and> unreachable meta = None \<longrightarrow> e = ErrEmptyKey"
    by blast
  from Create_failure [OF assms e] live show ?thesis
    by auto
qed

theorem KvResourceCreate_empty_key_witness:
  "KvResourceCreate Background (declared [] ''payload'') (client_of [(''a'', ''1'')])
   = Some ([\<lparr>Severity = Error, Summary = ''client-side error: etcdserver: key is not provided''\<rparr>],
           declared [] ''payload'',
           (client_of [(''a'', ''1'')])\<lparr>calls := [CallTxn (KeyMissing []) (OpPut [] ''payload'')]\<rparr>)"
  using KvResourceCreate_empty_key [of "declared [] ''payload''" "''payload''" Background
      "client_of [(''a'', ''1'')]"]
  by (auto simp: GetString_declared client_of_def)

section \<open>The password policy\<close>

text \<open>
  Claim C7: for every password of at most 9 characters, the creation of a user fails as
  invalid input and issues no call to the store (the client, its call log included, is
  returned as it was); for a password of more than 9 characters the validation passes.
\<close>

theorem UserResourceCreate_password_policy:
  "(length password \<le> 9 \<longrightarrow>
      UserResourceCreate c username password cl = (Inl InvalidInput, cl)
    \<and> calls (snd (UserResourceCreate c username password cl)) = calls cl)
   \<and> (9 < length password \<longrightarrow> Validate password = Inr ())"
  by (simp add: UserResourceCreate_def Validate_def)

theorem UserResourceCreate_password_policy_witness:
  "UserResourceCreate Background ''passbase'' ''password'' (client_of [])
     = (Inl InvalidInput, client_of [])
   \<and> calls (snd (UserResourceCreate Background ''passbase'' ''password'' (client_of [])))
     = calls (client_of [])
   \<and> Validate ''passbase-secret'' = Inr ()"
  using UserResourceCreate_password_policy [of "''password''" Background "''passbase''" "client_of []"]
    UserResourceCreate_password_policy [of "''passbase-secret''" Background "''passbase''" "client_of []"]
  by simp

section \<open>The identity after create\<close>

text \<open>
  Claim C8, as the spec states it: the identity is never assigned when the create did not
  put the key. On the store holding \<open>k = old\<close>, \<open>Create(k, new)\<close> puts nothing, the store
  still holds \<open>old\<close>, and yet the identity, empty before, is \<open>k\<close> afterwards.
\<close>

theorem KvResourceCreate_identity_counterexample:
  "KvResourceCreate Background (declared ''k'' ''new'') (client_of [(''k'', ''old'')])
   = Some ([], SetId (declared ''k'' ''new'') ''k'',
           (client_of [(''k'', ''old'')])\<lparr>calls := [CallTxn (KeyMissing ''k'') (OpPut ''k'' ''new'')]\<rparr>)
   \<and> ident (declared ''k'' ''new'') = []
   \<and> ident (SetId (declared ''k'' ''new'') ''k'') = ''k''
   \<and> kvs ((client_of [(''k'', ''old'')])\<lparr>calls := [CallTxn (KeyMissing ''k'') (OpPut ''k'' ''new'')]\<rparr>) ''k''
     = Some ''old''"
proof -
  have "ident (declared ''k'' ''new'') = []" "ident (SetId (declared ''k'' ''new'') ''k'') = ''k''"
    by (simp_all add: declared_def SetId_def)
  then show ?thesis
    by (simp add: KvResourceCreate_def GetString_declared Commit_live client_of_def)
qed

text \<open>
  Claim C8, amended: the identity of a key-value entry equals its key and is assigned
  exactly when the create returns without error, whether or not the transaction put the
  key: then the identity is set to the key and nothing else of the resource data
  changes; when the create returns an error, the resource data, identity included, is
  unchanged.
\<close>

theorem KvResourceCreate_identity:
  assumes "KvResourceCreate c d meta = Some (ds, d', meta')"
  shows "(ds = [] \<longrightarrow> GetString d ''key'' = Some (ident d') \<and> d' = SetId d (ident d'))
       \<and> (ds \<noteq> [] \<longrightarrow> d' = d)"
  using assms
  by (auto simp: KvResourceCreate_def FromErr_def SetId_def
      split: option.splits prod.splits sum.splits error.splits)

theorem KvResourceCreate_identity_witness:
  "GetString (declared ''n'' ''1'') ''key'' = Some (ident (SetId (declared ''n'' ''1'') ''n''))
   \<and> KvResourceCreate Background (declared ''n'' ''1'') (client_of [])
     = Some ([], SetId (declared ''n'' ''1'') ''n'',
            (client_of [])\<lparr>calls := [CallTxn (KeyMissing ''n'') (OpPut ''n'' ''1'')],
                              kvs := [''n'' \<mapsto> ''1'']\<rparr>)
   \<and> KvResourceCreate CtxCanceled (declared ''n'' ''1'') (client_of [])
     = Some ([\<lparr>Severity = Error, Summary = ''ctx is canceled by another routine: context canceled''\<rparr>],
             declared ''n'' ''1'',
             (client_of [])\<lparr>calls := [CallTxn (KeyMissing ''n'') (OpPut ''n'' ''1'')]\<rparr>)"
proof -
  have run: "KvResourceCreate Background (declared ''n'' ''1'') (client_of [])
    = Some ([], SetId (declared ''n'' ''1'') ''n'',
            (client_of [])\<lparr>calls := [CallTxn (KeyMissing ''n'') (OpPut ''n'' ''1'')],
                              kvs := [''n'' \<mapsto> ''1'']\<rparr>)"
    by (simp add: KvResourceCreate_def GetString_declared Commit_live client_of_def)
  have run': "KvResourceCreate CtxCanceled (declared ''n'' ''1'') (client_of [])
     = Some ([\<lparr>Severity = Error, Summary = ''ctx is canceled by another routine: context canceled''\<rparr>],
             declared ''n'' ''1'',
             (client_of [])\<lparr>calls := [CallTxn (KeyMissing ''n'') (OpPut ''n'' ''1'')]\<rparr>)"
    by (simp add: KvResourceCreate_def GetString_declared Commit_failure call_failure_ctx
        FromErr_def Errorf_def client_of_def)
  from KvResourceCreate_identity [OF run] KvResourceCreate_identity [OF run'] run run'
  show ?thesis by simp
qed

section \<open>Cancellation and deadline\<close>

text \<open>
  Claim C9: each of create, read and delete, when the store call aborts on a cancelled
  context, and when it aborts on an exceeded deadline, returns an error diagnostic that
  names the condition, and the two diagnostics differ: create puts its own message in
  front of the error of the context, read and delete report that error verbatim.
\<close>

theorem cancellation_distinguished:
  assumes "GetString d ''key'' = Some k" and "GetString d ''value'' = Some v"
    and "ctx_Err c1 = Some Canceled" and "ctx_Err c2 = Some DeadlineExceeded"
  shows "KvResourceCreate c1 d meta
           = Some ([\<lparr>Severity = Error, Summary = ''ctx is canceled by another routine: context canceled''\<rparr>],
                   d, meta\<lparr>calls := calls meta @ [CallTxn (KeyMissing k) (OpPut k v)]\<rparr>)
       \<and> KvResourceCreate c2 d meta
           = Some ([\<lparr>Severity = Error, Summary = ''ctx is attached with a deadline is exceeded: context deadline exceeded''\<rparr>],
                   d, meta\<lparr>calls := calls meta @ [CallTxn (KeyMissing k) (OpPut k v)]\<rparr>)
       \<and> KvResourceRead c1 d meta
           = Some ([\<lparr>Severity = Error, Summary = ''context canceled''\<rparr>],
                   d, meta\<lparr>calls := calls meta @ [CallGet k]\<rparr>)
       \<and> KvResourceRead c2 d meta
           = Some ([\<lparr>Severity = Error, Summary = ''context deadline exceeded''\<rparr>],
                   d, meta\<lparr>calls := calls meta @ [CallGet k]\<rparr>)
       \<and> KvResourceDelete c1 d meta
           = Some ([\<lparr>Severity = Error, Summary = ''context canceled''\<rparr>],
                   d, meta\<lparr>calls := calls meta @ [CallTxn (KeyExists k) (OpDelete k)]\<rparr>)
       \<and> KvResourceDelete c2 d meta
           = Some ([\<lparr>Severity = Error, Summary = ''context deadline exceeded''\<rparr>],
                   d, meta\<lparr>calls := calls meta @ [CallTxn (KeyExists k) (OpDelete k)]\<rparr>)
       \<and> map_option fst (KvResourceCreate c1 d meta) \<noteq> map_option fst (KvResourceCreate c2 d meta)
       \<and> map_option fst (KvResourceRead c1 d meta) \<noteq> map_option fst (KvResourceRead c2 d meta)
       \<and> map_option fst (KvResourceDelete c1 d meta) \<noteq> map_option fst (KvResourceDelete c2 d meta)"
proof -
  have f1: "call_failure c1 meta ks = Some Canceled" for ks
    using assms(3) by (rule call_failure_ctx)
  have f2: "call_failure c2 meta ks = Some DeadlineExceeded" for ks
    using assms(4) by (rule call_failure_ctx)
  have cr1: "KvResourceCreate c1 d meta
           = Some ([\<lparr>Severity = Error, Summary = ''ctx is canceled by another routine: context canceled''\<rparr>],
                   d, meta\<lparr>calls := calls meta @ [CallTxn (KeyMissing k) (OpPut k v)]\<rparr>)"
    using Create_failure [OF assms(1,2) f1] by simp
  have cr2: "KvResourceCreate c2 d meta
           = Some ([\<lparr>Severity = Error, Summary = ''ctx is attached with a deadline is exceeded: context deadline exceeded''\<rparr>],
                   d, meta\<lparr>calls := calls meta @ [CallTxn (KeyMissing k) (OpPut k v)]\<rparr>)"
    using Create_failure [OF assms(1,2) f2] by simp
  have rd1: "KvResourceRead c1 d meta
           = Some ([\<lparr>Severity = Error, Summary = ''context canceled''\<rparr>],
                   d, meta\<lparr>calls := calls meta @ [CallGet k]\<rparr>)"
    using assms(1) by (simp add: KvResourceRead_def Get_failure [OF f1] FromErr_def)
  have rd2: "KvResourceRead c2 d meta
           = Some ([\<lparr>Severity = Error, Summary = ''context deadline exceeded''\<rparr>],
                   d, meta\<lparr>calls := calls meta @ [CallGet k]\<rparr>)"
    using assms(1) by (simp add: KvResourceRead_def Get_failure [OF f2] FromErr_def)
  have dl1: "KvResourceDelete c1 d meta
           = Some ([\<lparr>Severity = Error, Summary = ''context canceled''\<rparr>],
                   d, meta\<lparr>calls := calls meta @ [CallTxn (KeyExists k) (OpDelete k)]\<rparr>)"
    using assms(1) by (simp add: KvResourceDelete_def Commit_failure [OF f1] FromErr_def)
  have dl2: "KvResourceDelete c2 d meta
           = Some ([\<lparr>Severity = Error, Summary = ''context deadline exceeded''\<rparr>],
                   d, meta\<lparr>calls := calls meta @ [CallTxn (KeyExists k) (OpDelete k)]\<rparr>)"
    using assms(1) by (simp add: KvResourceDelete_def Commit_failure [OF f2] FromErr_def)
  have ne: "map_option fst (KvResourceCreate c1 d meta) \<noteq> map_option fst (KvResourceCreate c2 d meta)"
    "map_option fst (KvResourceRead c1 d meta) \<noteq> map_option fst (KvResourceRead c2 d meta)"
    "map_option fst (KvResourceDelete c1 d meta) \<noteq> map_option fst (KvResourceDelete c2 d meta)"
    by (simp_all add: cr1 cr2 rd1 rd2 dl1 dl2)
  from cr1 cr2 rd1 rd2 dl1 dl2 ne show ?thesis by blast
qed

theorem cancellation_distinguished_witness:
  "KvResourceRead CtxCanceled (declared ''x'' ''a'') (client_of [(''x'', ''a'')])
     = Some ([\<lparr>Severity = Error, Summary = ''context canceled''\<rparr>],
             declared ''x'' ''a'', (client_of [(''x'', ''a'')])\<lparr>calls := [CallGet ''x'']\<rparr>)
   \<and> KvResourceDelete CtxDeadlineExceeded (declared ''x'' ''a'') (client_of [(''x'', ''a'')])
     = Some ([\<lparr>Severity = Error, Summary = ''context deadline exceeded''\<rparr>],
             declared ''x'' ''a'',
             (client_of [(''x'', ''a'')])\<lparr>calls := [CallTxn (KeyExists ''x'') (OpDelete ''x'')]\<rparr>)
   \<and> map_option fst (KvResourceCreate CtxCanceled (declared ''x'' ''a'') (client_of [(''x'', ''a'')]))
     \<noteq> map_option fst (KvResourceCreate CtxDeadlineExceeded (declared ''x'' ''a'') (client_of [(''x'', ''a'')]))"
  using cancellation_distinguished [of "declared ''x'' ''a''" "''x''" "''a''" CtxCanceled
      CtxDeadlineExceeded "client_of [(''x'', ''a'')]"]
  by (simp add: GetString_declared client_of_def)

section \<open>What a read changes\<close>

text \<open>
  Claim C10: every \<open>Read(key)\<close> that returns without error has written the record list of
  the store response into the \<open>key\<close> attribute of the resource, over the declared key, and
  has left the \<open>value\<close> attribute and the resource identity as they were. The read does
  hand the record list to \<^verbatim>\<open>d.Set\<close> for \<open>key\<close>, but \<open>key\<close> is declared a string, the write
  is rejected and the error dropped: on the store holding \<open>x = a\<close>, the read of the resource
  with key \<open>x\<close> returns without error, its lookup answers with the record \<open>(x, a)\<close>, and the
  \<open>key\<close> attribute is still the string \<open>x\<close>.
\<close>

theorem KvResourceRead_key_not_written:
  "KvResourceRead Background (SetId (declared ''x'' ''a'') ''x'') (client_of [(''x'', ''a'')])
   = Some ([], SetId (declared ''x'' ''a'') ''x'',
           (client_of [(''x'', ''a'')])\<lparr>calls := [CallGet ''x'']\<rparr>)
   \<and> Get Background (client_of [(''x'', ''a'')]) ''x''
     = (Inr \<lparr>Kvs = [\<lparr>Key = ''x'', Value = ''a''\<rparr>]\<rparr>,
        (client_of [(''x'', ''a'')])\<lparr>calls := [CallGet ''x'']\<rparr>)
   \<and> attrs (SetId (declared ''x'' ''a'') ''x'') ''key'' = Some (Str ''x'')
   \<and> Set_attr (SetId (declared ''x'' ''a'') ''x'') ''key'' (KvList [\<lparr>Key = ''x'', Value = ''a''\<rparr>]) = None"
proof -
  have "attrs (SetId (declared ''x'' ''a'') ''x'') ''key'' = Some (Str ''x'')"
    by (simp add: SetId_def declared_def)
  then show ?thesis
    by (simp add: Read_live Get_live GetString_declared GetString_SetId client_of_def
        Set_attr_key_KvList)
qed

end
